theory Spec2Isabelle
  imports Main
begin

section \<open>Mapped serialization core of MLDB (memory_region.cc)\<close>

text \<open>
  Conventions of the embedding.
  \<^item> A \<open>size_t\<close>, \<open>uint64_t\<close> or pointer value is a \<open>nat\<close>; the null pointer is \<open>0\<close>.
    The sums, products and differences that the FileSerializer computes on \<open>size_t\<close>
    wrap around at \<open>2 ^ 64\<close>, written \<open>size_t\<close> and \<open>size_t_minus\<close>; an address plus
    an offset into its arena is not wrapped.  Signed stream offsets (\<open>off_type\<close>,
    \<open>pos_type\<close>) are \<open>int\<close>.
  \<^item> A \<open>throw\<close> or a failed \<open>ExcAssert\<close> is the \<open>Inl\<close> branch of a sum.
  \<^item> The operating system is a list of pending answers, one per system call, taken in
    the order the calls are made: \<open>None\<close> is a call that fails, \<open>Some v\<close> one that
    succeeds (with the address \<open>v\<close> where the call returns one).  A call made when the list
    is exhausted fails.
  \<^item> \<open>page_size\<close> (mldb/arch/vm.h) and \<open>sizeof(void *)\<close> are parameters of the functions
    that use them.
  \<^item> One thread runs at a time, so the mutex of \<open>FileSerializer::Itl\<close> is left out, as is
    what the code prints to \<open>cerr\<close>.
\<close>

subsection \<open>Errors\<close>

datatype error =
    HttpReturnException nat string
  | AssertionFailure string
  | Exception string
  | UndefinedBehaviour string
  | Terminate

text \<open>Arithmetic on \<open>size_t\<close>: the result modulo \<open>2 ^ 64\<close>.\<close>

definition size_t :: "nat \<Rightarrow> nat" where
  "size_t x = x mod 2 ^ 64"

definition size_t_minus :: "nat \<Rightarrow> nat \<Rightarrow> nat" where
  "size_t_minus x y = (x mod 2 ^ 64 + 2 ^ 64 - y mod 2 ^ 64) mod 2 ^ 64"

subsection \<open>Ownership handles and memory regions\<close>

text \<open>
  \<open>std::shared_ptr<void>\<close>: the pointer it stores and the action run at the last
  release.  A default-constructed or \<open>nullptr\<close> handle stores \<open>0\<close>.
\<close>

datatype deleter = NoDeleter | FreeDeleter | NoopDeleter | MunmapCloseDeleter nat

record shared_ptr =
  get :: nat
  del :: deleter

definition nullptr_handle :: shared_ptr where
  "nullptr_handle = \<lparr>get = 0, del = NoDeleter\<rparr>"

record FrozenMemoryRegion =
  f_data :: nat
  f_length :: nat
  f_handle :: shared_ptr

text \<open>The three-argument constructor, in the order of the source's arguments.\<close>

definition FrozenMemoryRegion_new :: "shared_ptr \<Rightarrow> nat \<Rightarrow> nat \<Rightarrow> FrozenMemoryRegion" where
  "FrozenMemoryRegion_new handle dat len = \<lparr>f_data = dat, f_length = len, f_handle = handle\<rparr>"

text \<open>The default constructor: no data, no length, no handle.\<close>

definition FrozenMemoryRegion_empty :: FrozenMemoryRegion where
  "FrozenMemoryRegion_empty = FrozenMemoryRegion_new nullptr_handle 0 0"

text \<open>
  \<open>FrozenMemoryRegion::range(start, end)\<close>: two checked bounds, then a region on the same
  handle.
\<close>

definition range_region :: "FrozenMemoryRegion \<Rightarrow> nat \<Rightarrow> nat \<Rightarrow> error + FrozenMemoryRegion" where
  "range_region r start end =
     (if \<not> end \<ge> start then Inl (AssertionFailure ''end >= start'')
      else if \<not> end \<le> f_length r then Inl (AssertionFailure ''end <= length()'')
      else Inr (FrozenMemoryRegion_new (f_handle r) (f_data r + start) (end - start)))"

text \<open>Memory is a map from addresses to bytes; a region denotes the bytes it spans.\<close>

type_synonym byte = nat
type_synonym memory = "nat \<Rightarrow> byte"

definition region_bytes :: "memory \<Rightarrow> FrozenMemoryRegion \<Rightarrow> byte list" where
  "region_bytes mem r = map mem [f_data r ..< f_data r + f_length r]"

record MutableMemoryRegion =
  m_handle :: shared_ptr
  m_data :: nat
  m_length :: nat

subsection \<open>The operating system behind a FileSerializer\<close>

text \<open>\<open>MAP_FAILED\<close> is \<open>(void *) -1\<close>.\<close>

definition MAP_FAILED :: nat where
  "MAP_FAILED = 2 ^ 64 - 1"

record Arena =
  addr :: nat
  startOffset :: nat
  arena_length :: nat
  currentOffset :: nat

text \<open>
  The move constructor of \<open>Arena\<close> takes the address, the start offset and the length
  of the other arena; \<open>currentOffset\<close> gets its default, \<open>0\<close>.
\<close>

definition Arena_move :: "Arena \<Rightarrow> Arena" where
  "Arena_move other =
     \<lparr>addr = addr other, startOffset = startOffset other,
      arena_length = arena_length other, currentOffset = 0\<rparr>"

text \<open>
  \<open>FileSerializer::Itl\<close>, together with what the kernel holds for its file descriptor:
  the pending answers \<open>os\<close> and the length \<open>st_size\<close> of the file.  The vector of
  arenas comes with its capacity.
\<close>

record Itl =
  os :: "nat option list"
  st_size :: nat
  currentlyAllocated :: nat
  arenas :: "Arena list"
  capacity :: nat

definition Itl_new :: "nat option list \<Rightarrow> Itl" where
  "Itl_new answers =
     \<lparr>os = answers, st_size = 0, currentlyAllocated = 0, arenas = [], capacity = 0\<rparr>"

text \<open>
  \<open>arenas.emplace_back(...)\<close>: a full vector first moves its elements to storage of
  twice the capacity (the growth of libstdc++), each by the move constructor, the copy
  constructor being deleted.
\<close>

definition emplace_back :: "Itl \<Rightarrow> Arena \<Rightarrow> Itl" where
  "emplace_back s a =
     (if length (arenas s) = capacity s
      then s\<lparr>arenas := map Arena_move (arenas s) @ [a],
             capacity := (if capacity s = 0 then 1 else 2 * capacity s)\<rparr>
      else s\<lparr>arenas := arenas s @ [a]\<rparr>)"

definition answer :: "Itl \<Rightarrow> nat option \<times> Itl" where
  "answer s = (case os s of [] \<Rightarrow> (None, s) | r # rs \<Rightarrow> (r, s\<lparr>os := rs\<rparr>))"

text \<open>\<open>ftruncate(fd, len)\<close>: \<open>True\<close> is the result \<open>0\<close>, \<open>False\<close> the result \<open>-1\<close>.\<close>

definition ftruncate :: "Itl \<Rightarrow> nat \<Rightarrow> bool \<times> Itl" where
  "ftruncate s len =
     (case answer s of
        (None, s') \<Rightarrow> (False, s')
      | (Some _, s') \<Rightarrow> (True, s'\<lparr>st_size := len\<rparr>))"

definition fstat :: "Itl \<Rightarrow> nat option \<times> Itl" where
  "fstat s =
     (case answer s of
        (None, s') \<Rightarrow> (None, s')
      | (Some _, s') \<Rightarrow> (Some (st_size s'), s'))"

text \<open>\<open>mmap(nullptr, len, PROT_READ | PROT_WRITE, MAP_SHARED, fd, offset)\<close>.\<close>

definition mmap :: "Itl \<Rightarrow> nat \<Rightarrow> nat \<Rightarrow> nat \<times> Itl" where
  "mmap s len offset =
     (case answer s of
        (None, s') \<Rightarrow> (MAP_FAILED, s')
      | (Some a, s') \<Rightarrow> (a, s'))"

text \<open>\<open>mremap(old_address, old_size, new_size, 0)\<close>.\<close>

definition mremap :: "Itl \<Rightarrow> nat \<Rightarrow> nat \<Rightarrow> nat \<Rightarrow> nat \<times> Itl" where
  "mremap s old_address old_size new_size =
     (case answer s of
        (None, s') \<Rightarrow> (MAP_FAILED, s')
      | (Some a, s') \<Rightarrow> (a, s'))"

subsection \<open>FileSerializer\<close>

definition verifyLength :: "Itl \<Rightarrow> error + Itl" where
  "verifyLength s =
     (case fstat s of
        (None, s') \<Rightarrow> Inl (HttpReturnException 500 ''fstat'')
      | (Some sz, s') \<Rightarrow>
          if sz = currentlyAllocated s' then Inr s'
          else Inl (AssertionFailure ''st.st_size == currentlyAllocated''))"

text \<open>
  \<open>Arena::allocate\<close>: the null pointer when the request does not fit, else the aligned
  pointer, with the offset bumped.  The sum that is compared with the length is a sum of
  \<open>size_t\<close>.  A zero alignment divides by zero.
\<close>

definition Arena_allocate :: "Arena \<Rightarrow> nat \<Rightarrow> nat \<Rightarrow> error + (nat \<times> Arena)" where
  "Arena_allocate a bytes alignment =
     (if alignment = 0 then Inl (UndefinedBehaviour ''currentOffset % 0'')
      else
        let extraBytes = currentOffset a mod alignment;
            extraBytes = (if extraBytes > 0 then alignment - extraBytes else extraBytes)
        in if size_t (currentOffset a + bytes + extraBytes) > arena_length a then Inr (0, a)
           else Inr (addr a + extraBytes + currentOffset a,
                     a\<lparr>currentOffset := size_t (currentOffset a + (extraBytes + bytes))\<rparr>))"

definition Arena_freeSpace :: "Arena \<Rightarrow> nat" where
  "Arena_freeSpace a = arena_length a - currentOffset a"

definition createNewArena :: "nat \<Rightarrow> Itl \<Rightarrow> nat \<Rightarrow> error + Itl" where
  "createNewArena page_size s bytesRequired =
     (case verifyLength s of
        Inl e \<Rightarrow> Inl e
      | Inr s1 \<Rightarrow>
          let numPages =
                max (size_t_minus (size_t (bytesRequired + page_size)) 1 div page_size) 1024;
              numPages =
                max numPages
                  (size_t_minus (size_t (currentlyAllocated s1 + page_size)) 1
                     div page_size div 8);
              newLength = size_t (numPages * page_size)
          in (case ftruncate s1 (size_t (currentlyAllocated s1 + newLength)) of
                (False, s2) \<Rightarrow> Inl (HttpReturnException 500 ''ftruncate failed'')
              | (True, s2) \<Rightarrow>
                  (case mmap s2 newLength (currentlyAllocated s2) of
                     (a, s3) \<Rightarrow>
                       if a = MAP_FAILED
                       then Inl (HttpReturnException 400 ''Failed to open memory map file'')
                       else verifyLength
                         ((emplace_back s3
                             \<lparr>addr = a, startOffset = currentlyAllocated s3,
                              arena_length = newLength, currentOffset = 0\<rparr>)
                          \<lparr>currentlyAllocated := size_t (currentlyAllocated s3 + newLength)\<rparr>))))"

text \<open>
  \<open>expandLastArena\<close>: \<open>True\<close> when the last arena was grown in place, \<open>False\<close> when the
  remap did not give the arena's own address back and the file was cut back.
  \<open>arenas.back()\<close> of an empty vector is undefined.  \<open>expandLastArena_run\<close> is the
  function with the state it leaves behind, also where it throws (\<open>verifyLength\<close> throws
  after its \<open>fstat\<close>); \<open>expandLastArena\<close> is the same with the state of a return only.
\<close>

definition expandLastArena_run :: "nat \<Rightarrow> Itl \<Rightarrow> nat \<Rightarrow> (error + bool) \<times> Itl" where
  "expandLastArena_run page_size s bytesRequired =
     (case verifyLength s of
        Inl e \<Rightarrow> (Inl e, snd (fstat s))
      | Inr s1 \<Rightarrow>
          if arenas s1 = [] then (Inl (UndefinedBehaviour ''arenas.back()''), s1)
          else
            let back = last (arenas s1);
                newLength = size_t (arena_length back
                  + max (size_t_minus (size_t (bytesRequired + page_size)) 1 div page_size)
                      (size_t (10000 * page_size)))
            in (case ftruncate s1
                       (size_t_minus (size_t (currentlyAllocated s1 + newLength))
                          (arena_length back)) of
                 (False, s2) \<Rightarrow> (Inl (HttpReturnException 500 ''ftruncate failed''), s2)
               | (True, s2) \<Rightarrow>
                   (case mremap s2 (addr back) (arena_length back) newLength of
                      (newAddr, s3) \<Rightarrow>
                        if newAddr \<noteq> addr back then
                          (case ftruncate s3 (currentlyAllocated s3) of
                             (False, s4) \<Rightarrow>
                               (Inl (HttpReturnException 500 ''Ftruncate failed''), s4)
                           | (True, s4) \<Rightarrow>
                               (case verifyLength s4 of
                                  Inl e \<Rightarrow> (Inl e, snd (fstat s4))
                                | Inr s5 \<Rightarrow> (Inr False, s5)))
                        else
                          (case verifyLength
                              (s3\<lparr>currentlyAllocated :=
                                    size_t (currentlyAllocated s3
                                      + size_t_minus newLength (arena_length back)),
                                  arenas := butlast (arenas s3)
                                    @ [back\<lparr>arena_length := newLength\<rparr>]\<rparr>) of
                             Inl e \<Rightarrow>
                               (Inl e,
                                snd (fstat
                                  (s3\<lparr>currentlyAllocated :=
                                        size_t (currentlyAllocated s3
                                          + size_t_minus newLength (arena_length back)),
                                      arenas := butlast (arenas s3)
                                        @ [back\<lparr>arena_length := newLength\<rparr>]\<rparr>)))
                           | Inr s5 \<Rightarrow> (Inr True, s5)))))"

definition expandLastArena :: "nat \<Rightarrow> Itl \<Rightarrow> nat \<Rightarrow> error + (bool \<times> Itl)" where
  "expandLastArena page_size s bytesRequired =
     (case expandLastArena_run page_size s bytesRequired of
        (Inl e, s') \<Rightarrow> Inl e
      | (Inr expanded, s') \<Rightarrow> Inr (expanded, s'))"

text \<open>Every system call takes one pending answer, so the answers bound the loop below.\<close>

lemma answer_os: "answer s = (r, s') \<Longrightarrow> length (os s') \<le> length (os s)"
  by (auto simp: answer_def split: list.splits)

lemma answer_Some_os: "answer s = (Some v, s') \<Longrightarrow> length (os s') < length (os s)"
  by (auto simp: answer_def split: list.splits)

lemma verifyLength_os: "verifyLength s = Inr s' \<Longrightarrow> length (os s') < length (os s)"
  by (auto simp: verifyLength_def fstat_def dest: answer_Some_os
      split: prod.splits option.splits if_splits)

lemma ftruncate_os: "ftruncate s n = (b, s') \<Longrightarrow> length (os s') \<le> length (os s)"
  by (auto simp: ftruncate_def dest: answer_os split: prod.splits option.splits)

lemma mmap_os: "mmap s n k = (b, s') \<Longrightarrow> length (os s') \<le> length (os s)"
  by (auto simp: mmap_def dest: answer_os split: prod.splits option.splits)

lemma mremap_os: "mremap s n k j = (b, s') \<Longrightarrow> length (os s') \<le> length (os s)"
  by (auto simp: mremap_def dest: answer_os split: prod.splits option.splits)

lemma emplace_back_os [simp]: "os (emplace_back s a) = os s"
  by (simp add: emplace_back_def)

lemma createNewArena_os:
  "createNewArena ps s n = Inr s' \<Longrightarrow> length (os s') < length (os s)"
  unfolding createNewArena_def Let_def
  by (fastforce dest: verifyLength_os ftruncate_os mmap_os
      split: sum.splits prod.splits bool.splits if_splits)

lemma expandLastArena_os:
  "expandLastArena ps s n = Inr (b, s') \<Longrightarrow> length (os s') < length (os s)"
  unfolding expandLastArena_def expandLastArena_run_def Let_def
  by (fastforce dest: verifyLength_os ftruncate_os mremap_os
      split: sum.splits prod.splits bool.splits if_splits)

text \<open>
  The \<open>while\<close> loop of \<open>allocateWritableImpl\<close>: allocate out of the last arena; on the
  null pointer grow that arena, or failing that start a new one, and try again.
\<close>

function allocate_loop :: "nat \<Rightarrow> Itl \<Rightarrow> nat \<Rightarrow> nat \<Rightarrow> error + (nat \<times> Itl)" where
  "allocate_loop page_size s bytesRequired alignment =
     (if arenas s = [] then Inl (UndefinedBehaviour ''arenas.back()'')
      else
        case Arena_allocate (last (arenas s)) bytesRequired alignment of
          Inl e \<Rightarrow> Inl e
        | Inr (allocated, back) \<Rightarrow>
            if allocated \<noteq> 0 then Inr (allocated, s\<lparr>arenas := butlast (arenas s) @ [back]\<rparr>)
            else
              (case expandLastArena page_size (s\<lparr>arenas := butlast (arenas s) @ [back]\<rparr>)
                      (size_t (bytesRequired + alignment)) of
                 Inl e \<Rightarrow> Inl e
               | Inr (expanded, s1) \<Rightarrow>
                   if expanded then allocate_loop page_size s1 bytesRequired alignment
                   else
                     (case createNewArena page_size s1 (size_t (bytesRequired + alignment)) of
                        Inl e \<Rightarrow> Inl e
                      | Inr s2 \<Rightarrow> allocate_loop page_size s2 bytesRequired alignment)))"
  by pat_completeness auto
termination
proof (relation "measure (\<lambda>(page_size, s, bytesRequired, alignment). length (os s))")
  show "wf (measure (\<lambda>(page_size, s, bytesRequired, alignment). length (os s)))"
    by simp
next
  fix page_size s bytesRequired alignment arena res expanded s1
  assume "expandLastArena page_size (s\<lparr>arenas := butlast (arenas s) @ [arena]\<rparr>)
            (size_t (bytesRequired + alignment)) = Inr res"
    and "(expanded, s1) = res"
  then show "((page_size, s1, bytesRequired, alignment), page_size, s, bytesRequired, alignment)
       \<in> measure (\<lambda>(page_size, s, bytesRequired, alignment). length (os s))"
    using expandLastArena_os [of page_size "s\<lparr>arenas := butlast (arenas s) @ [arena]\<rparr>"
        "size_t (bytesRequired + alignment)" expanded s1]
    by auto
next
  fix page_size s bytesRequired alignment arena res expanded s1 s2
  assume "expandLastArena page_size (s\<lparr>arenas := butlast (arenas s) @ [arena]\<rparr>)
            (size_t (bytesRequired + alignment)) = Inr res"
    and "(expanded, s1) = res"
    and "createNewArena page_size s1 (size_t (bytesRequired + alignment)) = Inr s2"
  then show "((page_size, s2, bytesRequired, alignment), page_size, s, bytesRequired, alignment)
       \<in> measure (\<lambda>(page_size, s, bytesRequired, alignment). length (os s))"
    using expandLastArena_os [of page_size "s\<lparr>arenas := butlast (arenas s) @ [arena]\<rparr>"
        "size_t (bytesRequired + alignment)" expanded s1]
      createNewArena_os [of page_size s1 "size_t (bytesRequired + alignment)" s2]
    by auto
qed

declare allocate_loop.simps [simp del]

text \<open>
  \<open>allocateWritableImpl\<close>: the null handle for no bytes; else a first arena when there is
  none, the loop, the check of the alignment, and a handle that releases nothing.
\<close>

definition allocateWritableImpl :: "nat \<Rightarrow> Itl \<Rightarrow> nat \<Rightarrow> nat \<Rightarrow> error + (shared_ptr \<times> Itl)" where
  "allocateWritableImpl page_size s bytesRequired alignment =
     (if bytesRequired = 0 then Inr (nullptr_handle, s)
      else
        case (if arenas s = []
              then createNewArena page_size s (size_t (bytesRequired + alignment))
              else Inr s) of
          Inl e \<Rightarrow> Inl e
        | Inr s1 \<Rightarrow>
            (case allocate_loop page_size s1 bytesRequired alignment of
               Inl e \<Rightarrow> Inl e
             | Inr (allocated, s2) \<Rightarrow>
                 if allocated mod alignment \<noteq> 0
                 then Inl (AssertionFailure ''((size_t)allocated) % alignment == 0'')
                 else Inr (\<lparr>get = allocated, del = NoopDeleter\<rparr>, s2)))"

definition FileSerializer_allocateWritable ::
    "nat \<Rightarrow> Itl \<Rightarrow> nat \<Rightarrow> nat \<Rightarrow> error + (MutableMemoryRegion \<times> Itl)" where
  "FileSerializer_allocateWritable page_size s bytesRequired alignment =
     (case allocateWritableImpl page_size s bytesRequired alignment of
        Inl e \<Rightarrow> Inl e
      | Inr (handle, s') \<Rightarrow>
          Inr (\<lparr>m_handle = handle, m_data = get handle, m_length = bytesRequired\<rparr>, s'))"

definition FileSerializer_freeze :: "MutableMemoryRegion \<Rightarrow> FrozenMemoryRegion" where
  "FileSerializer_freeze region =
     FrozenMemoryRegion_new (m_handle region) (m_data region) (m_length region)"

text \<open>
  \<open>commit\<close>: nothing without an arena, else the file is cut to the end of what the last
  arena has handed out.  That end lies inside the file, so its sum is taken as it is.
\<close>

definition FileSerializer_commit :: "Itl \<Rightarrow> error + Itl" where
  "FileSerializer_commit s =
     (if arenas s = [] then Inr s
      else
        let realLength = startOffset (last (arenas s)) + currentOffset (last (arenas s))
        in (case ftruncate s realLength of
              (False, s') \<Rightarrow> Inl (HttpReturnException 500 ''ftruncate failed'')
            | (True, s') \<Rightarrow> Inr s'))"

subsection \<open>MemorySerializer\<close>

definition EINVAL :: nat where
  "EINVAL = 22"

definition ENOMEM :: nat where
  "ENOMEM = 12"

fun power_of_two :: "nat \<Rightarrow> bool" where
  "power_of_two n = (if n \<le> 1 then n = 1 else even n \<and> power_of_two (n div 2))"

declare power_of_two.simps [simp del]

text \<open>
  \<open>posix_memalign(&mem, alignment, nbytes)\<close> belongs to the C library and is modelled by
  its contract: \<open>EINVAL\<close> unless the alignment is a power of two times
  \<open>sizeof(void *)\<close>; \<open>ENOMEM\<close> when the allocator refuses; else the result \<open>0\<close> and in
  \<open>mem\<close> a multiple of the alignment, the \<open>k\<close>-th one when the allocator answers \<open>k\<close>.
  The multiple \<open>0\<close>, the null pointer, is a legal answer only for no bytes.
  The result is \<open>((res, mem), remaining answers)\<close>.
\<close>

definition posix_memalign ::
    "nat \<Rightarrow> nat option list \<Rightarrow> nat \<Rightarrow> nat \<Rightarrow> (nat \<times> nat) \<times> nat option list" where
  "posix_memalign sizeof_ptr heap alignment nbytes =
     (if alignment mod sizeof_ptr \<noteq> 0 \<or> \<not> power_of_two (alignment div sizeof_ptr)
      then ((EINVAL, 0), heap)
      else
        case heap of
          [] \<Rightarrow> ((ENOMEM, 0), [])
        | None # rest \<Rightarrow> ((ENOMEM, 0), rest)
        | Some k # rest \<Rightarrow>
            if k = 0 \<and> nbytes \<noteq> 0 then ((ENOMEM, 0), rest)
            else ((0, k * alignment), rest))"

text \<open>
  \<open>MemorySerializer::allocateWritable\<close>.  The check that \<open>bytesRequired\<close> survives the
  cast to \<open>size_t\<close> always passes where both are 64 bits wide.
\<close>

definition MemorySerializer_allocateWritable ::
    "nat \<Rightarrow> nat option list \<Rightarrow> nat \<Rightarrow> nat
       \<Rightarrow> error + (MutableMemoryRegion \<times> nat option list)" where
  "MemorySerializer_allocateWritable sizeof_ptr heap bytesRequired alignment =
     (let alignment = (if alignment < sizeof_ptr then sizeof_ptr else alignment)
      in case posix_memalign sizeof_ptr heap alignment bytesRequired of
           ((res, mem), heap') \<Rightarrow>
             if res \<noteq> 0
             then Inl (HttpReturnException 400 ''Error allocating writable memory'')
             else Inr (\<lparr>m_handle = \<lparr>get = mem, del = FreeDeleter\<rparr>, m_data = mem,
                         m_length = bytesRequired\<rparr>, heap'))"

definition MemorySerializer_freeze :: "MutableMemoryRegion \<Rightarrow> FrozenMemoryRegion" where
  "MemorySerializer_freeze region =
     FrozenMemoryRegion_new (m_handle region) (m_data region) (m_length region)"

subsection \<open>Paths\<close>

text \<open>
  A \<open>PathElement\<close> is a string and a \<open>Path\<close> a sequence of elements.  Parsing and
  printing of paths (sql/path.cc) are outside this development.
\<close>

type_synonym PathElement = string
type_synonym Path = "PathElement list"

subsection \<open>ZipStructuredSerializer\<close>

text \<open>
  \<open>ZipStructuredSerializer::Itl\<close>: the root of the archive, or a sub-structure of a
  parent under a relative name.
\<close>

datatype ZipItl = BaseItl | RelativeItl ZipItl PathElement

fun ZipItl_path :: "ZipItl \<Rightarrow> Path" where
  "ZipItl_path BaseItl = []"
| "ZipItl_path (RelativeItl parent relativePath) = ZipItl_path parent @ [relativePath]"

text \<open>What libarchive has been given for one entry: the header fields and the data.\<close>

record archive_entry =
  pathname :: Path
  entry_size :: nat
  filetype :: nat
  perm :: nat
  payload :: "byte list"

definition AE_IFREG :: nat where
  "AE_IFREG = 32768"

text \<open>
  The world of a structured serializer: the pending answers of the allocator and of
  libarchive, the memory, and the entries written to the archive of the root so far.
\<close>

record zip_world =
  answers :: "nat option list"
  mem :: memory
  archive :: "archive_entry list"

text \<open>\<open>std::memcpy(dest, src, n)\<close>, with the source given by its bytes.\<close>

definition memcpy :: "memory \<Rightarrow> nat \<Rightarrow> byte list \<Rightarrow> memory" where
  "memcpy m dest src = (\<lambda>a. if dest \<le> a \<and> a < dest + length src then src ! (a - dest) else m a)"

text \<open>
  \<open>BaseItl::writeEntry\<close>: the header (name, size, regular file, mode 0440), then the
  data.  \<open>archive_write_header\<close> takes one answer, \<open>archive_write_data\<close> the next one,
  which is the number of bytes written.
\<close>

definition writeEntry :: "zip_world \<Rightarrow> Path \<Rightarrow> FrozenMemoryRegion \<Rightarrow> error + zip_world" where
  "writeEntry w name region =
     (case answers w of
        [] \<Rightarrow> Inl (HttpReturnException 500 ''Error writing zip file'')
      | None # rest \<Rightarrow> Inl (HttpReturnException 500 ''Error writing zip file'')
      | Some _ # rest \<Rightarrow>
          (case rest of
             Some written # rest' \<Rightarrow>
               if written \<noteq> f_length region
               then Inl (HttpReturnException 500 ''Not all data written'')
               else Inr (w\<lparr>answers := rest',
                          archive := archive w @
                            [\<lparr>pathname = name, entry_size = f_length region,
                              filetype = AE_IFREG, perm = 288,
                              payload = region_bytes (mem w) region\<rparr>]\<rparr>)
           | _ \<Rightarrow> Inl (HttpReturnException 500 ''Not all data written'')))"

text \<open>
  \<open>EntrySerializer\<close>: a MemorySerializer that remembers the last region frozen and
  writes it as the entry \<open>itl->path() + entryName\<close> when it is destroyed.  An exception
  of \<open>writeEntry\<close> cannot leave the destructor: \<open>std::terminate\<close> ends the program.
\<close>

record EntrySerializer =
  itl :: ZipItl
  entryName :: PathElement
  frozen :: FrozenMemoryRegion

definition newEntry :: "ZipItl \<Rightarrow> PathElement \<Rightarrow> EntrySerializer" where
  "newEntry i name = \<lparr>itl = i, entryName = name, frozen = FrozenMemoryRegion_empty\<rparr>"

definition EntrySerializer_freeze ::
    "EntrySerializer \<Rightarrow> MutableMemoryRegion \<Rightarrow> FrozenMemoryRegion \<times> EntrySerializer" where
  "EntrySerializer_freeze entry region =
     (let f = MemorySerializer_freeze region in (f, entry\<lparr>frozen := f\<rparr>))"

definition EntrySerializer_destroy :: "EntrySerializer \<Rightarrow> zip_world \<Rightarrow> error + zip_world" where
  "EntrySerializer_destroy entry w =
     (let name = ZipItl_path (itl entry) @ [entryName entry]
      in (case writeEntry w name (frozen entry) of
            Inl e \<Rightarrow> Inl Terminate
          | Inr w' \<Rightarrow> Inr w'))"

text \<open>
  \<open>StructuredSerializer::newObject(name, val, desc)\<close> on the serializer \<open>this_itl\<close>;
  \<open>printJson\<close> is the printer of the value description.  The entry is destroyed, and so
  written, when the function returns.
\<close>

definition newObject ::
    "nat \<Rightarrow> ('v \<Rightarrow> byte list) \<Rightarrow> ZipItl \<Rightarrow> zip_world \<Rightarrow> PathElement \<Rightarrow> 'v
       \<Rightarrow> error + zip_world" where
  "newObject sizeof_ptr printJson this_itl w name val =
     (let printed = printJson val;
          entry = newEntry this_itl ''md''
      in case MemorySerializer_allocateWritable sizeof_ptr (answers w) (length printed) 1 of
           Inl e \<Rightarrow> Inl e
         | Inr (serializeTo, rest) \<Rightarrow>
             (let w1 = w\<lparr>answers := rest, mem := memcpy (mem w) (m_data serializeTo) printed\<rparr>;
                  (f, entry) = EntrySerializer_freeze entry serializeTo
              in EntrySerializer_destroy entry w1))"

subsection \<open>ZipStructuredReconstituter\<close>

text \<open>
  \<open>ZipStructuredReconstituter::Itl::Entry\<close>.  The \<open>std::map\<close> of children is a list of
  bindings with one binding for a name; the order of its keys is not modelled.
\<close>

datatype Entry = Entry (path: Path) (children: "(PathElement \<times> Entry) list")
  (region: FrozenMemoryRegion)

definition Entry_default :: Entry where
  "Entry_default = Entry [] [] FrozenMemoryRegion_empty"

text \<open>\<open>children[e]\<close>: the child bound to \<open>e\<close>, a default entry when there is none yet.\<close>

definition child_at :: "(PathElement \<times> Entry) list \<Rightarrow> PathElement \<Rightarrow> Entry" where
  "child_at ch e = (case map_of ch e of None \<Rightarrow> Entry_default | Some c \<Rightarrow> c)"

fun bind_child :: "(PathElement \<times> Entry) list \<Rightarrow> PathElement \<Rightarrow> Entry \<Rightarrow> (PathElement \<times> Entry) list" where
  "bind_child [] e c = [(e, c)]"
| "bind_child ((k, v) # ch) e c = (if k = e then (k, c) # ch else (k, v) # bind_child ch e c)"

text \<open>
  The insertion into the index: walk down from the root along the elements of the path,
  creating the nodes on the way, and set the path and the region of the node reached.
\<close>

fun index_entry :: "Entry \<Rightarrow> PathElement list \<Rightarrow> Path \<Rightarrow> FrozenMemoryRegion \<Rightarrow> Entry" where
  "index_entry (Entry p ch r) [] pth reg = Entry pth ch reg"
| "index_entry (Entry p ch r) (e # es) pth reg =
     Entry p (bind_child ch e (index_entry (child_at ch e) es pth reg)) r"

text \<open>
  The loop of the constructor of \<open>Itl\<close> over the headers that libarchive delivers: for
  each one the parsed path name, the pointer to the first data block and its length.
\<close>

fun Itl_index :: "FrozenMemoryRegion \<Rightarrow> (Path \<times> nat \<times> nat) list \<Rightarrow> Entry \<Rightarrow> error + Entry" where
  "Itl_index container [] rootStorage = Inr rootStorage"
| "Itl_index container ((pth, currentBlock, len) # headers) rootStorage =
     (let offset = int currentBlock - int (f_data container)
      in case (if offset \<ge> 0 \<and> offset \<le> int (f_length container) then Inr (nat offset)
               else if len = 0 then Inr 0
               else Inl (AssertionFailure ''false'')) of
           Inl e \<Rightarrow> Inl e
         | Inr offset \<Rightarrow>
             (case range_region container offset (offset + len) of
                Inl e \<Rightarrow> Inl e
              | Inr r \<Rightarrow> Itl_index container headers (index_entry rootStorage pth pth r)))"

text \<open>
  A reconstituter is the entry it is rooted at.  The message of \<open>getStructure\<close> ends
  where the source appends the printed path of the root.
\<close>

definition getStructure :: "Entry \<Rightarrow> PathElement \<Rightarrow> error + Entry" where
  "getStructure root name =
     (case map_of (children root) name of
        None \<Rightarrow> Inl (HttpReturnException 400 (''Child structure '' @ name @ '' not found at''))
      | Some it \<Rightarrow> Inr it)"

definition getRegion :: "Entry \<Rightarrow> PathElement \<Rightarrow> error + FrozenMemoryRegion" where
  "getRegion root name =
     (case map_of (children root) name of
        None \<Rightarrow> Inl (HttpReturnException 400 (''Child structure '' @ name @ '' not found''))
      | Some it \<Rightarrow> Inr (region it))"

text \<open>
  \<open>getDirectory\<close> offers the block of a child when the data pointer of its region is not
  null, and its structure when it has children.
\<close>

definition has_block :: "Entry \<Rightarrow> bool" where
  "has_block ch = (f_data (region ch) \<noteq> 0)"

definition has_structure :: "Entry \<Rightarrow> bool" where
  "has_structure ch = (children ch \<noteq> [])"

text \<open>
  \<open>StructuredReconstituter::getStructureRecursive\<close>: \<open>result\<close> starts as the null pointer
  (\<open>None\<close>) and \<open>current\<close> as \<open>this\<close>.
\<close>

fun getStructureRecursive_loop :: "Entry \<Rightarrow> Entry option \<Rightarrow> Path \<Rightarrow> error + Entry option" where
  "getStructureRecursive_loop current result [] = Inr result"
| "getStructureRecursive_loop current result (el # name) =
     (case getStructure current el of
        Inl e \<Rightarrow> Inl e
      | Inr r \<Rightarrow> getStructureRecursive_loop r (Some r) name)"

definition getStructureRecursive :: "Entry \<Rightarrow> Path \<Rightarrow> error + Entry option" where
  "getStructureRecursive this name = getStructureRecursive_loop this None name"

subsection \<open>ReconstituteStreamHandler\<close>

text \<open>\<open>std::ios_base::seekdir\<close>; \<open>ios_other\<close> is any value that is none of the three.\<close>

datatype seekdir = ios_beg | ios_cur | ios_end | ios_other

text \<open>
  The stream buffer over a frozen region: its two bounds and the three pointers of the get
  area of \<open>std::streambuf\<close>.  Pointers are integers here, since offsets are signed.
\<close>

record ReconstituteStreamHandler =
  start_ptr :: int
  end_ptr :: int
  eback :: int
  gptr :: int
  egptr :: int

definition setg :: "ReconstituteStreamHandler \<Rightarrow> int \<Rightarrow> int \<Rightarrow> int \<Rightarrow> ReconstituteStreamHandler" where
  "setg h gbeg gnext gend = h\<lparr>eback := gbeg, gptr := gnext, egptr := gend\<rparr>"

text \<open>\<open>gbump(int n)\<close>: the offset, narrowed to 32 bits, is added to the read pointer.\<close>

definition to_int32 :: "int \<Rightarrow> int" where
  "to_int32 off = (off + 2 ^ 31) mod 2 ^ 32 - 2 ^ 31"

definition gbump :: "ReconstituteStreamHandler \<Rightarrow> int \<Rightarrow> ReconstituteStreamHandler" where
  "gbump h n = h\<lparr>gptr := gptr h + to_int32 n\<rparr>"

definition ReconstituteStreamHandler_new :: "FrozenMemoryRegion \<Rightarrow> ReconstituteStreamHandler" where
  "ReconstituteStreamHandler_new r =
     \<lparr>start_ptr = int (f_data r), end_ptr = int (f_data r) + int (f_length r),
      eback = int (f_data r), gptr = int (f_data r),
      egptr = int (f_data r) + int (f_length r)\<rparr>"

definition seekoff ::
    "ReconstituteStreamHandler \<Rightarrow> int \<Rightarrow> seekdir \<Rightarrow> error + (int \<times> ReconstituteStreamHandler)" where
  "seekoff h off dir =
     (case (case dir of
              ios_cur \<Rightarrow> Inr (gbump h off)
            | ios_end \<Rightarrow> Inr (setg h (start_ptr h) (end_ptr h + off) (end_ptr h))
            | ios_beg \<Rightarrow> Inr (setg h (start_ptr h) (start_ptr h + off) (end_ptr h))
            | ios_other \<Rightarrow> Inl (Exception ''Streambuf invalid seakoff dir'')) of
        Inl e \<Rightarrow> Inl e
      | Inr h' \<Rightarrow> Inr (gptr h' - eback h', h'))"

definition seekpos :: "ReconstituteStreamHandler \<Rightarrow> int \<Rightarrow> error + (int \<times> ReconstituteStreamHandler)" where
  "seekpos h pos = seekoff h (pos - 0) ios_beg"

subsection \<open>Example states\<close>

text \<open>
  A serializer on pages of 4096 bytes after one byte was allocated: one arena of 1024
  pages at address \<open>1048576\<close>.  The next five system calls will be answered: the file
  is as long as recorded, it can be extended, the remap is refused, the file can be cut
  back, it is as long as recorded.
\<close>

definition one_byte_used :: Itl where
  "one_byte_used =
     \<lparr>os = [Some 0, Some 0, None, Some 0, Some 0],
      st_size = 4194304, currentlyAllocated = 4194304,
      arenas = [\<lparr>addr = 1048576, startOffset = 0, arena_length = 4194304, currentOffset = 1\<rparr>],
      capacity = 1\<rparr>"

text \<open>
  The same serializer with all but one byte of its arena handed out; the next four system
  calls succeed, and the remap gives the arena's own address back.
\<close>

definition one_byte_left :: Itl where
  "one_byte_left =
     \<lparr>os = [Some 0, Some 0, Some 1048576, Some 0],
      st_size = 4194304, currentlyAllocated = 4194304,
      arenas = [\<lparr>addr = 1048576, startOffset = 0, arena_length = 4194304,
                 currentOffset = 4194303\<rparr>],
      capacity = 1\<rparr>"

text \<open>
  The serializer \<open>one_byte_used\<close> after a request of 5000000 bytes was served out of a
  second arena (the first arena was moved when the vector grew); one more system call will
  succeed.
\<close>

definition two_arenas :: Itl where
  "two_arenas =
     \<lparr>os = [Some 0], st_size = 9195520, currentlyAllocated = 9195520,
      arenas = [\<lparr>addr = 1048576, startOffset = 0, arena_length = 4194304, currentOffset = 0\<rparr>,
                \<lparr>addr = 2097152000, startOffset = 4194304, arena_length = 5001216,
                 currentOffset = 5000000\<rparr>],
      capacity = 2\<rparr>"

text \<open>
  A mapped container of 100 bytes at address 1000, and the index built for it from one
  entry \<open>b/c\<close> of 5 bytes stored at offset 30.
\<close>

definition example_container :: FrozenMemoryRegion where
  "example_container = FrozenMemoryRegion_new \<lparr>get = 1000, del = MunmapCloseDeleter 4096\<rparr> 1000 100"

definition example_root :: Entry where
  "example_root =
     Entry [] [(''b'', Entry []
                  [(''c'', Entry [''b'', ''c''] []
                     (FrozenMemoryRegion_new \<lparr>get = 1000, del = MunmapCloseDeleter 4096\<rparr> 1030 5))]
                  FrozenMemoryRegion_empty)]
       FrozenMemoryRegion_empty"

text \<open>
  A world with zeroed memory and an empty archive, where the allocator will answer with
  the fourth multiple of the alignment and libarchive will accept a header and 3 bytes.
\<close>

definition example_world :: zip_world where
  "example_world = \<lparr>answers = [Some 4, Some 0, Some 3], mem = (\<lambda>a. 0), archive = []\<rparr>"

subsection \<open>Slices of a frozen region\<close>

text \<open>
  C9.  For a frozen region \<open>r\<close> and bounds \<open>a \<le> b \<le> length r\<close>, \<open>c \<le> d \<le> b - a\<close>, both
  slicings succeed, \<open>r.range(a, b).range(c, d)\<close> is the very region \<open>r.range(a + c, a + d)\<close>
  (same pointer, same length, hence the same bytes in every memory \<open>m\<close>), and both carry the
  handle of \<open>r\<close>.
\<close>

theorem range_region_compose:
  assumes "a \<le> b" and "b \<le> f_length r" and "c \<le> d" and "d \<le> b - a"
  shows "\<exists>r1 r2. range_region r a b = Inr r1 \<and> range_region r1 c d = Inr r2
           \<and> range_region r (a + c) (a + d) = Inr r2
           \<and> region_bytes m r2 = take (d - c) (drop (a + c) (region_bytes m r))
           \<and> f_handle r1 = f_handle r \<and> f_handle r2 = f_handle r"
proof -
  let ?r1 = "FrozenMemoryRegion_new (f_handle r) (f_data r + a) (b - a)"
  let ?r2 = "FrozenMemoryRegion_new (f_handle r) (f_data r + a + c) (d - c)"
  have 1: "range_region r a b = Inr ?r1"
    using assms by (simp add: range_region_def)
  have 2: "range_region ?r1 c d = Inr ?r2"
    using assms by (simp add: range_region_def FrozenMemoryRegion_new_def)
  have 3: "range_region r (a + c) (a + d) = Inr ?r2"
    using assms by (simp add: range_region_def FrozenMemoryRegion_new_def add.assoc)
  have "a + c + (d - c) \<le> f_length r"
    using assms by simp
  then have 4: "region_bytes m ?r2 = take (d - c) (drop (a + c) (region_bytes m r))"
    by (simp add: region_bytes_def FrozenMemoryRegion_new_def take_map drop_map add.assoc)
  show ?thesis
    using 1 2 3 4 by (simp add: FrozenMemoryRegion_new_def)
qed

theorem range_region_compose_witness:
  "(2::nat) \<le> 8 \<and> 8 \<le> f_length example_container \<and> (1::nat) \<le> 4 \<and> (4::nat) \<le> 8 - 2
   \<and> (\<exists>r1 r2. range_region example_container 2 8 = Inr r1
      \<and> range_region r1 1 4 = Inr r2
      \<and> range_region example_container (2 + 1) (2 + 4) = Inr r2
      \<and> region_bytes (\<lambda>x. x) r2
          = take (4 - 1) (drop (2 + 1) (region_bytes (\<lambda>x. x) example_container))
      \<and> f_handle r1 = f_handle example_container
      \<and> f_handle r2 = f_handle example_container)"
proof -
  have len: "8 \<le> f_length example_container"
    by (simp add: example_container_def FrozenMemoryRegion_new_def)
  from range_region_compose [of 2 8 example_container 1 4 "\<lambda>x. x"] len show ?thesis
    by simp
qed

subsection \<open>A refused in-place growth\<close>

lemmas sys_defs =
  verifyLength_def fstat_def answer_def ftruncate_def mmap_def mremap_def MAP_FAILED_def

lemma size_t_id: "x < 2 ^ 64 \<Longrightarrow> size_t x = x"
  by (simp add: size_t_def)

lemma wrap_minus_one:
  assumes "0 < x" and "x < K" and "1 < (K::nat)"
  shows "(x mod K + K - 1 mod K) mod K = x - 1"
proof -
  have "x mod K + K - 1 mod K = (x - 1) + K"
    using assms by simp
  moreover have "((x - 1) + K) mod K = (x - 1) mod K"
    by (rule mod_add_self2)
  moreover have "(x - 1) mod K = x - 1"
    using assms by simp
  ultimately show ?thesis
    by simp
qed

lemma size_t_minus_one: "0 < x \<Longrightarrow> x < 2 ^ 64 \<Longrightarrow> size_t_minus x 1 = x - 1"
  unfolding size_t_minus_def by (rule wrap_minus_one) simp_all

lemma expandLastArena_run_refused:
  assumes "os s = Some v1 # Some v2 # m # Some v4 # rest"
    and "currentlyAllocated s = st_size s" and "arenas s \<noteq> []"
    and "(case m of None \<Rightarrow> MAP_FAILED | Some a \<Rightarrow> a) \<noteq> addr (last (arenas s))"
  shows "expandLastArena_run ps s br =
           (case rest of
              Some v5 # rest' \<Rightarrow> (Inr False, s\<lparr>os := rest'\<rparr>)
            | _ \<Rightarrow> (Inl (HttpReturnException 500 ''fstat''), s\<lparr>os := tl rest\<rparr>))"
  using assms
  by (cases m)
    (auto simp: expandLastArena_run_def verifyLength_def fstat_def answer_def ftruncate_def
      mremap_def Let_def split: list.splits option.splits)

lemma ceil_pages: "0 < ps \<Longrightarrow> (x::nat) \<le> (x + ps - 1) div ps * ps"
proof -
  assume ps: "0 < ps"
  have "x + ps - 1 = (x + ps - 1) div ps * ps + (x + ps - 1) mod ps" by simp
  moreover have "(x + ps - 1) mod ps < ps" using ps by simp
  ultimately show ?thesis using ps by linarith
qed

lemma new_arena_length_ge:
  assumes "0 < ps"
  shows "(x::nat) \<le> max (max ((x + ps - 1) div ps) 1024) k * ps"
proof -
  have "x \<le> (x + ps - 1) div ps * ps" using assms by (rule ceil_pages)
  also have "\<dots> \<le> max (max ((x + ps - 1) div ps) 1024) k * ps"
    by (intro mult_le_mono1) simp
  finally show ?thesis .
qed

lemma emplace_back_fields [simp]:
  "st_size (emplace_back s a) = st_size s"
  "currentlyAllocated (emplace_back s a) = currentlyAllocated s"
  by (simp_all add: emplace_back_def)

lemma Arena_move_idem [simp]: "Arena_move (Arena_move a) = Arena_move a"
  by (simp add: Arena_move_def)

lemma emplace_back_arenas:
  "arenas (emplace_back s a) \<noteq> []"
  "last (arenas (emplace_back s a)) = a"
  "length (arenas (emplace_back s a)) = Suc (length (arenas s))"
  "map Arena_move (butlast (arenas (emplace_back s a))) = map Arena_move (arenas s)"
  by (simp_all add: emplace_back_def)


lemma new_arena_length_nowrap:
  assumes ps: "0 < ps" and br: "br + ps < 2 ^ 64" and ca: "ca + ps < 2 ^ 64"
    and k: "1024 * ps < 2 ^ 64"
  shows "size_t (max (max (size_t_minus (size_t (br + ps)) 1 div ps) 1024)
                   (size_t_minus (size_t (ca + ps)) 1 div ps div 8) * ps)
       = max (max ((br + ps - 1) div ps) 1024) ((ca + ps - 1) div ps div 8) * ps"
proof -
  have 1: "size_t_minus (size_t (br + ps)) 1 = br + ps - 1"
    using size_t_minus_one [of "br + ps"] ps br by (simp add: size_t_id)
  have 2: "size_t_minus (size_t (ca + ps)) 1 = ca + ps - 1"
    using size_t_minus_one [of "ca + ps"] ps ca by (simp add: size_t_id)
  have a: "(br + ps - 1) div ps * ps < 2 ^ 64"
  proof -
    have "(br + ps - 1) div ps * ps \<le> br + ps - 1" by simp
    with br show ?thesis by linarith
  qed
  have c: "(ca + ps - 1) div ps div 8 * ps < 2 ^ 64"
  proof -
    have "(ca + ps - 1) div ps div 8 \<le> (ca + ps - 1) div ps" by simp
    then have "(ca + ps - 1) div ps div 8 * ps \<le> (ca + ps - 1) div ps * ps"
      by (rule mult_le_mono1)
    also have "\<dots> \<le> ca + ps - 1" by simp
    finally show ?thesis using ca by linarith
  qed
  have "max (max ((br + ps - 1) div ps) 1024) ((ca + ps - 1) div ps div 8) * ps
      = max (max ((br + ps - 1) div ps * ps) (1024 * ps)) ((ca + ps - 1) div ps div 8 * ps)"
    by (simp add: nat_mult_max_left)
  also have "\<dots> < 2 ^ 64"
    using a c k by simp
  finally have "size_t (max (max ((br + ps - 1) div ps) 1024) ((ca + ps - 1) div ps div 8) * ps)
      = max (max ((br + ps - 1) div ps) 1024) ((ca + ps - 1) div ps div 8) * ps"
    by (rule size_t_id)
  then show ?thesis
    unfolding 1 2 .
qed

lemma createNewArena_granted:
  assumes "os s = Some v1 # Some v2 # Some a # Some v4 # rs"
    and "st_size s = currentlyAllocated s" and "a \<noteq> MAP_FAILED"
    and "len = size_t (max (max (size_t_minus (size_t (br + ps)) 1 div ps) 1024)
                 (size_t_minus (size_t (currentlyAllocated s + ps)) 1 div ps div 8) * ps)"
  shows "createNewArena ps s br =
     Inr ((emplace_back (s\<lparr>st_size := size_t (currentlyAllocated s + len), os := Some v4 # rs\<rparr>)
             \<lparr>addr = a, startOffset = currentlyAllocated s, arena_length = len,
              currentOffset = 0\<rparr>)
          \<lparr>currentlyAllocated := size_t (currentlyAllocated s + len), os := rs\<rparr>)"
  using assms
  by (simp add: createNewArena_def verifyLength_def fstat_def answer_def ftruncate_def
      mmap_def Let_def)

lemma allocate_loop_fresh_arena:
  assumes "arenas s \<noteq> []"
    and "last (arenas s) = \<lparr>addr = a, startOffset = so, arena_length = len, currentOffset = 0\<rparr>"
    and "n \<le> len" and "n < 2 ^ 64" and "a \<noteq> 0" and "0 < al"
  shows "allocate_loop ps s n al =
           Inr (a, s\<lparr>arenas := butlast (arenas s)
                  @ [\<lparr>addr = a, startOffset = so, arena_length = len, currentOffset = n\<rparr>]\<rparr>)"
  using assms
  by (subst allocate_loop.simps) (simp add: Arena_allocate_def size_t_id)

lemma new_arena_length_le:
  "max (max ((br + ps - 1) div ps) 1024) ((ca + ps - 1) div ps div 8) * ps
     \<le> max (max (br + ps - 1) (1024 * ps)) (ca + ps - (1::nat))"
proof -
  have a: "(br + ps - 1) div ps * ps \<le> br + ps - 1"
    by simp
  have "(ca + ps - 1) div ps div 8 \<le> (ca + ps - 1) div ps"
    by simp
  then have "(ca + ps - 1) div ps div 8 * ps \<le> (ca + ps - 1) div ps * ps"
    by (rule mult_le_mono1)
  also have "\<dots> \<le> ca + ps - 1"
    by simp
  finally have c: "(ca + ps - 1) div ps div 8 * ps \<le> ca + ps - 1" .
  have "max (max ((br + ps - 1) div ps) 1024) ((ca + ps - 1) div ps div 8) * ps
      = max (max ((br + ps - 1) div ps * ps) (1024 * ps)) ((ca + ps - 1) div ps div 8 * ps)"
    by (simp add: nat_mult_max_left)
  also have "\<dots> \<le> max (max (br + ps - 1) (1024 * ps)) (ca + ps - 1)"
    using a c by (intro max.mono) simp_all
  finally show ?thesis .
qed

lemma allocateWritableImpl_via_new_arena:
  assumes lens: "st_size s1 = currentlyAllocated s1" and ne: "arenas s1 \<noteq> []"
    and ps: "0 < page_size" and n: "0 < n" and al: "0 < al"
    and psb: "page_size < 2 ^ 50" and rb: "n + al < 2 ^ 61"
    and ab: "al * page_size < 2 ^ 62"
    and fb: "currentlyAllocated s1 < 2 ^ 61"
    and refused: "(case m of None \<Rightarrow> MAP_FAILED | Some a \<Rightarrow> a) \<noteq> addr (last (arenas s1))"
    and full: "Arena_allocate (last (arenas s1)) n al = Inr (0, last (arenas s1))"
  shows "\<exists>answers h s2.
           allocateWritableImpl page_size (s1\<lparr>os := answers\<rparr>) n al = Inr (h, s2)
         \<and> get h \<noteq> 0 \<and> length (arenas s2) = Suc (length (arenas s1))
         \<and> map Arena_move (butlast (arenas s2)) = map Arena_move (arenas s1)
         \<and> get h = addr (last (arenas s2)) \<and> get h mod page_size = 0
         \<and> get h + arena_length (last (arenas s2)) < 2 ^ 64
         \<and> currentOffset (last (arenas s2)) = n
         \<and> n \<le> arena_length (last (arenas s2))
         \<and> startOffset (last (arenas s2)) = currentlyAllocated s1
         \<and> st_size s2 = currentlyAllocated s2 \<and> currentlyAllocated s2 < 2 ^ 63"
proof -
  have nb: "n + al + page_size < 2 ^ 64"
    using psb rb by simp
  have cb: "currentlyAllocated s1 + page_size < 2 ^ 64"
    using psb fb by simp
  have kb: "1024 * page_size < 2 ^ 64"
    using psb by simp
  define a where "a = al * page_size"
  define len where "len = max (max ((n + al + page_size - 1) div page_size) 1024)
                            ((currentlyAllocated s1 + page_size - 1) div page_size div 8) * page_size"
  define new where "new = \<lparr>addr = a, startOffset = currentlyAllocated s1, arena_length = len,
                           currentOffset = 0\<rparr>"
  define answers where "answers =
     [Some 0, Some 0, m, Some 0, Some 0,
      Some 0, Some 0, Some a, Some (0::nat)]"
  define sa where "sa = s1\<lparr>os := answers\<rparr>"
  define sb where "sb = sa\<lparr>os := [Some 0, Some 0, Some a, Some (0::nat)]\<rparr>"
  define sc where "sc = (emplace_back (sb\<lparr>st_size := size_t (currentlyAllocated sb + len),
                                             os := [Some 0]\<rparr>) new)
                          \<lparr>currentlyAllocated := size_t (currentlyAllocated sb + len), os := []\<rparr>"
  define sd where "sd = sc\<lparr>arenas := butlast (arenas sc) @ [new\<lparr>currentOffset := n\<rparr>]\<rparr>"
  have a0: "a \<noteq> 0" and amod: "a mod al = 0" and apage: "a mod page_size = 0"
    using al ps by (simp_all add: a_def)
  have a62: "a < 2 ^ 62"
    using ab by (simp add: a_def)
  then have amf: "a \<noteq> MAP_FAILED"
    by (simp add: MAP_FAILED_def)
  have br: "size_t (n + al) = n + al"
    using nb by (simp add: size_t_id)
  have n64: "n < 2 ^ 64"
    using nb by simp
  have nlen: "n \<le> len"
  proof -
    have "n \<le> n + al" by simp
    also have "\<dots> \<le> len" unfolding len_def using ps by (rule new_arena_length_ge)
    finally show ?thesis .
  qed
  have lenb: "len < 2 ^ 62"
  proof -
    have "len \<le> max (max (n + al + page_size - 1) (1024 * page_size))
                   (currentlyAllocated s1 + page_size - 1)"
      unfolding len_def by (rule new_arena_length_le)
    also have "\<dots> < 2 ^ 62"
    proof -
      have 1: "n + al + page_size < 2 ^ 62" and 2: "currentlyAllocated s1 + page_size < 2 ^ 62"
        using psb rb fb by simp_all
      have "n + al + page_size - 1 < 2 ^ 62"
        using 1 by (rule less_imp_diff_less)
      moreover have "currentlyAllocated s1 + page_size - 1 < 2 ^ 62"
        using 2 by (rule less_imp_diff_less)
      moreover have "1024 * page_size < 2 ^ 62"
        using psb by simp
      ultimately show ?thesis by simp
    qed
    finally show ?thesis .
  qed
  have total: "size_t (currentlyAllocated s1 + len) = currentlyAllocated s1 + len"
      "currentlyAllocated s1 + len < 2 ^ 63"
    using lenb fb by (simp_all add: size_t_id)
  have wrapped: "size_t (max (max (size_t_minus (size_t (n + al + page_size)) 1 div page_size) 1024)
                   (size_t_minus (size_t (currentlyAllocated s1 + page_size)) 1
                      div page_size div 8) * page_size) = len"
    unfolding len_def using ps nb cb kb by (rule new_arena_length_nowrap)
  have e: "expandLastArena page_size sa (size_t (n + al)) = Inr (False, sb)"
    using expandLastArena_run_refused [of sa 0 0 m 0
        "[Some 0, Some 0, Some 0, Some a, Some 0]" page_size "size_t (n + al)"]
      lens ne refused
    by (simp add: expandLastArena_def sb_def sa_def answers_def)
  have c: "createNewArena page_size sb (size_t (n + al)) = Inr sc"
    using createNewArena_granted [of sb 0 0 a 0 "[]" len "n + al" page_size] lens amf wrapped
    by (simp add: br sb_def sa_def sc_def new_def)
  have sc_arenas: "arenas sc \<noteq> []" "last (arenas sc) = new"
      "length (arenas sc) = Suc (length (arenas s1))"
      "map Arena_move (butlast (arenas sc)) = map Arena_move (arenas s1)"
    by (simp_all add: sc_def emplace_back_arenas sb_def sa_def)
  have l2: "allocate_loop page_size sc n al = Inr (a, sd)"
    using allocate_loop_fresh_arena [of sc a "currentlyAllocated s1" len n al page_size]
      nlen n64 a0 al sc_arenas
    by (simp add: new_def sd_def)
  have l1: "allocate_loop page_size sa n al = Inr (a, sd)"
    using ne full e c l2
    by (subst allocate_loop.simps) (simp add: sa_def)
  have r: "allocateWritableImpl page_size sa n al = Inr (\<lparr>get = a, del = NoopDeleter\<rparr>, sd)"
    using n ne l1 amod by (simp add: allocateWritableImpl_def sa_def)
  have "get \<lparr>get = a, del = NoopDeleter\<rparr> \<noteq> 0 \<and> length (arenas sd) = Suc (length (arenas s1))
         \<and> map Arena_move (butlast (arenas sd)) = map Arena_move (arenas s1)
         \<and> get \<lparr>get = a, del = NoopDeleter\<rparr> = addr (last (arenas sd))
         \<and> get \<lparr>get = a, del = NoopDeleter\<rparr> mod page_size = 0
         \<and> get \<lparr>get = a, del = NoopDeleter\<rparr> + arena_length (last (arenas sd)) < 2 ^ 64
         \<and> currentOffset (last (arenas sd)) = n
         \<and> n \<le> arena_length (last (arenas sd))
         \<and> startOffset (last (arenas sd)) = currentlyAllocated s1
         \<and> st_size sd = currentlyAllocated sd \<and> currentlyAllocated sd < 2 ^ 63"
    using a0 apage a62 lenb sc_arenas nlen total
    by (simp add: sd_def sc_def sb_def sa_def new_def)
  with r [unfolded sa_def] show ?thesis
    by (intro exI [of _ answers] exI [of _ "\<lparr>get = a, del = NoopDeleter\<rparr>"] exI [of _ sd])
      (rule conjI)
qed

text \<open>
  C1.  Let the serializer be at rest (the file as long as recorded, at least one arena),
  let \<open>expandLastArena\<close> get as far as the remap (\<open>fstat\<close> and the extending
  \<open>ftruncate\<close> succeed), let the remap be refused (its result is not the arena's
  address), and let the \<open>ftruncate\<close> that cuts the file back succeed.  Then the function
  returns \<open>false\<close>, or throws from its last \<open>fstat\<close>, and the length of the file, the
  allocated total and the vector of arenas, with every arena's address, start offset,
  length and current offset, are what they were before the attempt.  The serializer stays
  usable: for every later request \<open>(n, al)\<close> that the last arena cannot serve, with
  \<open>n + al\<close> and the file below \<open>2 ^ 61\<close> bytes, pages below \<open>2 ^ 50\<close> bytes and
  \<open>al * page_size\<close> below \<open>2 ^ 62\<close>, there are answers of the operating system (the
  remap refused as before) under which \<open>allocateWritableImpl\<close> returns a non-null pointer,
  the page-aligned base of one new arena of at least \<open>n\<close> bytes inside the address
  space, which starts at the end of the file, behind the earlier arenas with their
  addresses, start offsets and lengths; the file is then as long as recorded, below
  \<open>2 ^ 63\<close> bytes.
\<close>

theorem refused_remap_rolls_back:
  assumes "os s = Some v1 # Some v2 # m # Some v4 # rest"
    and "st_size s = currentlyAllocated s" and "arenas s \<noteq> []"
    and "(case m of None \<Rightarrow> MAP_FAILED | Some a \<Rightarrow> a) \<noteq> addr (last (arenas s))"
    and "expandLastArena_run page_size s bytesRequired = (res, s1)"
  shows "(res = Inr False \<or> res = Inl (HttpReturnException 500 ''fstat''))
       \<and> st_size s1 = st_size s \<and> currentlyAllocated s1 = currentlyAllocated s
       \<and> arenas s1 = arenas s \<and> capacity s1 = capacity s
       \<and> (\<forall>n al. 0 < page_size \<and> page_size < 2 ^ 50 \<and> 0 < n \<and> 0 < al
              \<and> n + al < 2 ^ 61 \<and> al * page_size < 2 ^ 62
              \<and> currentlyAllocated s < 2 ^ 61
              \<and> Arena_allocate (last (arenas s1)) n al = Inr (0, last (arenas s1))
            \<longrightarrow> (\<exists>answers h s2.
                   allocateWritableImpl page_size (s1\<lparr>os := answers\<rparr>) n al = Inr (h, s2)
                 \<and> get h \<noteq> 0 \<and> length (arenas s2) = Suc (length (arenas s))
                 \<and> map Arena_move (butlast (arenas s2)) = map Arena_move (arenas s)
                 \<and> get h = addr (last (arenas s2)) \<and> get h mod page_size = 0
                 \<and> get h + arena_length (last (arenas s2)) < 2 ^ 64
                 \<and> currentOffset (last (arenas s2)) = n
                 \<and> n \<le> arena_length (last (arenas s2))
                 \<and> startOffset (last (arenas s2)) = currentlyAllocated s
                 \<and> st_size s2 = currentlyAllocated s2 \<and> currentlyAllocated s2 < 2 ^ 63))"
proof -
  have run: "expandLastArena_run page_size s bytesRequired =
           (case rest of
              Some v5 # rest' \<Rightarrow> (Inr False, s\<lparr>os := rest'\<rparr>)
            | _ \<Rightarrow> (Inl (HttpReturnException 500 ''fstat''), s\<lparr>os := tl rest\<rparr>))"
    using assms(1-4) by (intro expandLastArena_run_refused) simp_all
  with assms(5) have r: "res = Inr False \<or> res = Inl (HttpReturnException 500 ''fstat'')"
      "st_size s1 = st_size s" "currentlyAllocated s1 = currentlyAllocated s"
      "arenas s1 = arenas s" "capacity s1 = capacity s"
    by (auto split: list.splits option.splits)
  have "\<exists>answers h s2.
           allocateWritableImpl page_size (s1\<lparr>os := answers\<rparr>) n al = Inr (h, s2)
         \<and> get h \<noteq> 0 \<and> length (arenas s2) = Suc (length (arenas s))
         \<and> map Arena_move (butlast (arenas s2)) = map Arena_move (arenas s)
         \<and> get h = addr (last (arenas s2)) \<and> get h mod page_size = 0
         \<and> get h + arena_length (last (arenas s2)) < 2 ^ 64
         \<and> currentOffset (last (arenas s2)) = n
         \<and> n \<le> arena_length (last (arenas s2))
         \<and> startOffset (last (arenas s2)) = currentlyAllocated s
         \<and> st_size s2 = currentlyAllocated s2 \<and> currentlyAllocated s2 < 2 ^ 63"
    if "0 < page_size" "page_size < 2 ^ 50" "0 < n" "0 < al" "n + al < 2 ^ 61"
      "al * page_size < 2 ^ 62" "currentlyAllocated s < 2 ^ 61"
      "Arena_allocate (last (arenas s1)) n al = Inr (0, last (arenas s1))" for n al
    using allocateWritableImpl_via_new_arena [of s1 page_size n al m] that r assms(2,3,4)
    by simp
  with r show ?thesis by blast
qed

theorem refused_remap_rolls_back_witness:
  "os one_byte_used = Some 0 # Some 0 # None # Some 0 # [Some 0]
   \<and> st_size one_byte_used = currentlyAllocated one_byte_used
   \<and> arenas one_byte_used \<noteq> []
   \<and> MAP_FAILED \<noteq> addr (last (arenas one_byte_used))
   \<and> expandLastArena_run 4096 one_byte_used 5000001 = (Inr False, one_byte_used\<lparr>os := []\<rparr>)
   \<and> st_size (one_byte_used\<lparr>os := []\<rparr>) = st_size one_byte_used
   \<and> currentlyAllocated (one_byte_used\<lparr>os := []\<rparr>) = currentlyAllocated one_byte_used
   \<and> arenas (one_byte_used\<lparr>os := []\<rparr>) = arenas one_byte_used
   \<and> capacity (one_byte_used\<lparr>os := []\<rparr>) = capacity one_byte_used
   \<and> (4096::nat) < 2 ^ 50 \<and> (5000000::nat) + 1 < 2 ^ 61 \<and> (1::nat) * 4096 < 2 ^ 62
   \<and> currentlyAllocated one_byte_used < 2 ^ 61
   \<and> Arena_allocate (last (arenas (one_byte_used\<lparr>os := []\<rparr>))) 5000000 1
       = Inr (0, last (arenas (one_byte_used\<lparr>os := []\<rparr>)))
   \<and> (\<exists>answers h s2.
          allocateWritableImpl 4096 (one_byte_used\<lparr>os := answers\<rparr>) 5000000 1 = Inr (h, s2)
        \<and> get h \<noteq> 0 \<and> length (arenas s2) = Suc (length (arenas one_byte_used))
        \<and> map Arena_move (butlast (arenas s2)) = map Arena_move (arenas one_byte_used)
        \<and> get h = addr (last (arenas s2)) \<and> get h mod 4096 = 0
        \<and> get h + arena_length (last (arenas s2)) < 2 ^ 64
        \<and> currentOffset (last (arenas s2)) = 5000000
        \<and> 5000000 \<le> arena_length (last (arenas s2))
        \<and> startOffset (last (arenas s2)) = currentlyAllocated one_byte_used
        \<and> st_size s2 = currentlyAllocated s2 \<and> currentlyAllocated s2 < 2 ^ 63)"
proof -
  have o: "os one_byte_used = Some 0 # Some 0 # None # Some 0 # [Some 0]"
    and i: "st_size one_byte_used = currentlyAllocated one_byte_used"
    and ne: "arenas one_byte_used \<noteq> []"
    by (simp_all add: one_byte_used_def)
  have m: "(case None of None \<Rightarrow> MAP_FAILED | Some a \<Rightarrow> a) \<noteq> addr (last (arenas one_byte_used))"
    by (simp add: one_byte_used_def MAP_FAILED_def)
  have e: "expandLastArena_run 4096 one_byte_used 5000001 = (Inr False, one_byte_used\<lparr>os := []\<rparr>)"
    by (simp add: one_byte_used_def expandLastArena_run_def sys_defs size_t_def size_t_minus_def)
  have f: "Arena_allocate (last (arenas (one_byte_used\<lparr>os := []\<rparr>))) 5000000 1
       = Inr (0, last (arenas (one_byte_used\<lparr>os := []\<rparr>)))"
    by (simp add: one_byte_used_def Arena_allocate_def size_t_def)
  have b: "currentlyAllocated one_byte_used < 2 ^ 61"
    by (simp add: one_byte_used_def)
  from refused_remap_rolls_back [OF o i ne m e] f e o i ne m b show ?thesis
    by simp
qed

text \<open>
  Without the last condition the state is not restored: when the \<open>ftruncate\<close> that should
  cut the file back is refused as well, the function throws and leaves the file at its
  extended length, 45154304 bytes where 4194304 are recorded.
\<close>

theorem refused_undo_counterexample:
  "os (one_byte_used\<lparr>os := [Some 0, Some 0, None, None]\<rparr>) = [Some 0, Some 0, None, None]
   \<and> MAP_FAILED \<noteq> addr (last (arenas one_byte_used))
   \<and> expandLastArena_run 4096 (one_byte_used\<lparr>os := [Some 0, Some 0, None, None]\<rparr>) 5000001
     = (Inl (HttpReturnException 500 ''Ftruncate failed''),
        one_byte_used\<lparr>os := [], st_size := 45154304\<rparr>)
   \<and> st_size (one_byte_used\<lparr>os := [], st_size := 45154304\<rparr>) \<noteq> st_size one_byte_used"
  by (simp add: one_byte_used_def expandLastArena_run_def sys_defs size_t_def size_t_minus_def)

subsection \<open>The size of an in-place growth\<close>

text \<open>
  C2.  The in-place growth takes the larger of a number of pages and a number of bytes:
  \<open>max(pages needed, 10000 * page_size)\<close> bytes.  On pages of 4096 bytes, a serializer
  that has handed out 4194303 bytes has one byte left in its arena; for a request of
  50000000 bytes with alignment 1, which that arena cannot serve, the file and the arena
  grow by 40960000 bytes, not by the 50003968 bytes of the request rounded up to whole
  pages.
\<close>

theorem expandLastArena_fifty_megabytes:
  "allocateWritableImpl 4096
      (Itl_new [Some 0, Some 0, Some 1048576, Some 0, Some 0, Some 0, Some 1048576, Some 0])
      4194303 1
     = Inr (\<lparr>get = 1048576, del = NoopDeleter\<rparr>, one_byte_left)
   \<and> Arena_allocate (last (arenas one_byte_left)) 50000000 1
     = Inr (0, last (arenas one_byte_left))
   \<and> expandLastArena 4096 one_byte_left (50000000 + 1)
     = Inr (True, \<lparr>os = [], st_size = 4194304 + 40960000,
                    currentlyAllocated = 4194304 + 40960000,
                    arenas = [\<lparr>addr = 1048576, startOffset = 0,
                               arena_length = 4194304 + 40960000,
                               currentOffset = 4194303\<rparr>],
                    capacity = 1\<rparr>)
   \<and> max ((50000000 + 1 + 4096 - 1) div 4096 * 4096) (10000 * 4096) = (50003968::nat)"
  by (simp add: one_byte_left_def Itl_new_def allocateWritableImpl_def createNewArena_def
      emplace_back_def expandLastArena_def expandLastArena_run_def sys_defs
      allocate_loop.simps Arena_allocate_def size_t_def size_t_minus_def)

subsection \<open>Alignment and length of an allocation\<close>

text \<open>
  The size check of \<open>Arena::allocate\<close> wraps: an arena of 64 bytes with 2 handed out
  serves a request of \<open>2 ^ 64 - 1\<close> bytes.
\<close>

lemma Arena_allocate_size_check_wraps:
  "Arena_allocate \<lparr>addr = 4096, startOffset = 0, arena_length = 64, currentOffset = 2\<rparr>
      (2 ^ 64 - 1) 1
     = Inr (4098, \<lparr>addr = 4096, startOffset = 0, arena_length = 64, currentOffset = 1\<rparr>)"
  by (simp add: Arena_allocate_def size_t_def)




subsection \<open>Commit\<close>

text \<open>
  C4.  After a successful commit of a serializer with at least one arena, the length of
  the file is the start offset of the last arena plus the offset up to which that arena
  has been handed out; the arenas and the allocated total are unchanged.
\<close>

theorem commit_truncates_to_high_water_mark:
  assumes "FileSerializer_commit s = Inr s'" and "arenas s \<noteq> []"
  shows "st_size s' = startOffset (last (arenas s)) + currentOffset (last (arenas s))
       \<and> arenas s' = arenas s \<and> currentlyAllocated s' = currentlyAllocated s"
  using assms
  by (auto simp: FileSerializer_commit_def ftruncate_def answer_def Let_def
      split: list.splits option.splits prod.splits)

theorem commit_truncates_to_high_water_mark_witness:
  "FileSerializer_commit two_arenas = Inr (two_arenas\<lparr>os := [], st_size := 9194304\<rparr>)
   \<and> arenas two_arenas \<noteq> []
   \<and> st_size (two_arenas\<lparr>os := [], st_size := 9194304\<rparr>)
       = startOffset (last (arenas two_arenas)) + currentOffset (last (arenas two_arenas))
   \<and> arenas (two_arenas\<lparr>os := [], st_size := 9194304\<rparr>) = arenas two_arenas
   \<and> currentlyAllocated (two_arenas\<lparr>os := [], st_size := 9194304\<rparr>) = currentlyAllocated two_arenas"
proof -
  have c: "FileSerializer_commit two_arenas = Inr (two_arenas\<lparr>os := [], st_size := 9194304\<rparr>)"
    by (simp add: FileSerializer_commit_def two_arenas_def ftruncate_def answer_def)
  have n: "arenas two_arenas \<noteq> []"
    by (simp add: two_arenas_def)
  from commit_truncates_to_high_water_mark [OF c n] c n show ?thesis
    by simp
qed

text \<open>
  Space left at the end of an earlier arena stays in the file: after a request of one
  byte served out of a first arena and one of 5000000 bytes served out of a second, the
  committed file has 9194304 bytes, not 5000001.
\<close>

theorem commit_size_counterexample:
  "allocateWritableImpl 4096
      (Itl_new [Some 0, Some 0, Some 1048576, Some 0,
                Some 0, Some 0, None, Some 0, Some 0,
                Some 0, Some 0, Some 2097152000, Some 0, Some 0]) 1 1
     = Inr (\<lparr>get = 1048576, del = NoopDeleter\<rparr>,
            one_byte_used\<lparr>os := [Some 0, Some 0, None, Some 0, Some 0,
                                 Some 0, Some 0, Some 2097152000, Some 0, Some 0]\<rparr>)
   \<and> allocateWritableImpl 4096
        (one_byte_used\<lparr>os := [Some 0, Some 0, None, Some 0, Some 0,
                              Some 0, Some 0, Some 2097152000, Some 0, Some 0]\<rparr>) 5000000 1
     = Inr (\<lparr>get = 2097152000, del = NoopDeleter\<rparr>, two_arenas)
   \<and> FileSerializer_commit two_arenas = Inr (two_arenas\<lparr>os := [], st_size := 9194304\<rparr>)
   \<and> arenas two_arenas \<noteq> []
   \<and> st_size (two_arenas\<lparr>os := [], st_size := 9194304\<rparr>) \<noteq> 1 + 5000000"
  by (simp add: allocateWritableImpl_def Itl_new_def one_byte_used_def two_arenas_def
      createNewArena_def emplace_back_def Arena_move_def expandLastArena_def
      expandLastArena_run_def sys_defs allocate_loop.simps Arena_allocate_def
      FileSerializer_commit_def size_t_def size_t_minus_def)

subsection \<open>Requests for no bytes\<close>

text \<open>
  C5.  For no bytes the file-backed serializer returns, whatever the alignment, the empty
  region with the null handle and leaves its state alone.  A region that the heap-backed
  serializer returns for no bytes has the length 0 and the handle the allocator gave, which
  holds the region's pointer.  Freezing either region gives a frozen region of length 0
  with the same handle.
\<close>

theorem zero_length_allocation:
  "FileSerializer_allocateWritable page_size s 0 a
      = Inr (\<lparr>m_handle = nullptr_handle, m_data = 0, m_length = 0\<rparr>, s)
   \<and> get nullptr_handle = 0
   \<and> f_length (FileSerializer_freeze \<lparr>m_handle = nullptr_handle, m_data = 0, m_length = 0\<rparr>) = 0
   \<and> (MemorySerializer_allocateWritable sizeof_ptr heap 0 a = Inr (r, heap')
        \<longrightarrow> m_length r = 0 \<and> get (m_handle r) = m_data r
            \<and> f_length (MemorySerializer_freeze r) = 0
            \<and> f_handle (MemorySerializer_freeze r) = m_handle r)"
  by (auto simp: FileSerializer_allocateWritable_def allocateWritableImpl_def nullptr_handle_def
      FileSerializer_freeze_def MemorySerializer_freeze_def FrozenMemoryRegion_new_def
      MemorySerializer_allocateWritable_def Let_def split: prod.splits if_splits)

theorem zero_length_allocation_witness:
  "MemorySerializer_allocateWritable 8 [Some 0] 0 1
      = Inr (\<lparr>m_handle = \<lparr>get = 0, del = FreeDeleter\<rparr>, m_data = 0, m_length = 0\<rparr>, [])
   \<and> f_length (MemorySerializer_freeze
         \<lparr>m_handle = \<lparr>get = 0, del = FreeDeleter\<rparr>, m_data = 0, m_length = 0\<rparr>) = 0
   \<and> f_handle (MemorySerializer_freeze
         \<lparr>m_handle = \<lparr>get = 0, del = FreeDeleter\<rparr>, m_data = 0, m_length = 0\<rparr>)
       = \<lparr>get = 0, del = FreeDeleter\<rparr>"
proof -
  have m: "MemorySerializer_allocateWritable 8 [Some 0] 0 1
      = Inr (\<lparr>m_handle = \<lparr>get = 0, del = FreeDeleter\<rparr>, m_data = 0, m_length = 0\<rparr>, [])"
    by (simp add: MemorySerializer_allocateWritable_def posix_memalign_def power_of_two.simps)
  from zero_length_allocation [where sizeof_ptr = 8 and heap = "[Some 0]" and a = 1
      and heap' = "[]"] m
  show ?thesis by simp
qed

text \<open>
  The heap-backed serializer has no case for no bytes: when the allocator answers such a
  request with a pointer, as it may, the handle is not null.
\<close>

theorem heap_zero_length_handle_counterexample:
  "MemorySerializer_allocateWritable 8 [Some 1] 0 1
      = Inr (\<lparr>m_handle = \<lparr>get = 8, del = FreeDeleter\<rparr>, m_data = 8, m_length = 0\<rparr>, [])
   \<and> get \<lparr>get = 8, del = FreeDeleter\<rparr> \<noteq> (0::nat)"
  by (simp add: MemorySerializer_allocateWritable_def posix_memalign_def power_of_two.simps)

subsection \<open>The name of an object's entry\<close>

text \<open>
  C6.  \<open>newObject\<close> does not look at its \<open>name\<close> argument: any two names give the same
  result, and the bytes of the printer are written as the entry \<open>md\<close> under the path of
  the serializer.  On the serializer at path \<open>cols\<close>, the object named \<open>index\<close> is
  written as \<open>cols/md\<close>, not as \<open>cols/index\<close>.
\<close>

theorem newObject_ignores_name:
  "newObject sizeof_ptr printJson this_itl w name val
     = newObject sizeof_ptr printJson this_itl w name' val
   \<and> map_sum id archive
       (newObject 8 id (RelativeItl BaseItl ''cols'') example_world ''index'' [1, 2, 3])
     = Inr [\<lparr>pathname = [''cols'', ''md''], entry_size = 3, filetype = AE_IFREG, perm = 288,
             payload = [1, 2, 3]\<rparr>]
   \<and> [''cols'', ''md''] \<noteq> ZipItl_path (RelativeItl BaseItl ''cols'') @ [''index'']"
  by (simp add: newObject_def example_world_def newEntry_def MemorySerializer_allocateWritable_def
      posix_memalign_def power_of_two.simps EntrySerializer_freeze_def EntrySerializer_destroy_def
      MemorySerializer_freeze_def FrozenMemoryRegion_new_def writeEntry_def region_bytes_def
      memcpy_def Let_def)

subsection \<open>Looking up a region\<close>

text \<open>
  C7.  \<open>getRegion\<close> fails, with the exception of code 400, exactly when the name is bound
  to no child of the node; a name that is bound gets the region of its child, whatever
  that child holds.
\<close>

theorem getRegion_fails_iff_absent:
  "(getRegion root name = Inl (HttpReturnException 400 (''Child structure '' @ name @ '' not found'')))
      = (name \<notin> fst ` set (children root))
   \<and> (\<forall>it. map_of (children root) name = Some it \<longrightarrow> getRegion root name = Inr (region it))"
  by (cases "map_of (children root) name")
    (simp_all add: getRegion_def map_of_eq_None_iff [symmetric])

theorem getRegion_fails_iff_absent_witness:
  "map_of (children example_root) ''b'' = Some (Entry []
                  [(''c'', Entry [''b'', ''c''] []
                     (FrozenMemoryRegion_new \<lparr>get = 1000, del = MunmapCloseDeleter 4096\<rparr> 1030 5))]
                  FrozenMemoryRegion_empty)
   \<and> getRegion example_root ''b'' = Inr FrozenMemoryRegion_empty
   \<and> getRegion example_root ''a'' = Inl (HttpReturnException 400 (''Child structure '' @ ''a'' @ '' not found''))"
  using getRegion_fails_iff_absent [of example_root "''b''"]
    getRegion_fails_iff_absent [of example_root "''a''"]
  by (simp add: example_root_def)

text \<open>
  A name bound only to a sub-structure is not reported missing: in the index of the single
  entry \<open>b/c\<close>, the node \<open>b\<close> has a child and no block, and \<open>getRegion\<close> returns
  its empty region.
\<close>

theorem getRegion_of_structure_counterexample:
  "Itl_index example_container [([''b'', ''c''], 1030, 5)] Entry_default = Inr example_root
   \<and> has_structure (child_at (children example_root) ''b'')
   \<and> \<not> has_block (child_at (children example_root) ''b'')
   \<and> getRegion example_root ''b'' = Inr FrozenMemoryRegion_empty"
  by (simp add: example_container_def example_root_def Entry_default_def child_at_def
      range_region_def FrozenMemoryRegion_new_def FrozenMemoryRegion_empty_def nullptr_handle_def
      has_structure_def has_block_def getRegion_def)

subsection \<open>Seeking in a frozen region\<close>

text \<open>
  C8.  A seek from the beginning, from the end or from the current position raises no
  error and leaves the read position at its target, be it inside the region or not:
  \<open>off\<close> from the beginning, the length plus \<open>off\<close> from the end, the old position plus
  \<open>off\<close> narrowed to 32 bits from the current position.
\<close>

theorem seekoff_reaches_target:
  assumes "eback h = start_ptr h" and "dir \<noteq> ios_other"
  shows "\<exists>h'. seekoff h off dir = Inr (gptr h' - eback h', h')
           \<and> eback h' = start_ptr h' \<and> start_ptr h' = start_ptr h \<and> end_ptr h' = end_ptr h
           \<and> gptr h' - eback h' =
               (case dir of
                  ios_beg \<Rightarrow> off
                | ios_end \<Rightarrow> end_ptr h - start_ptr h + off
                | _ \<Rightarrow> gptr h - eback h + to_int32 off)"
  using assms
  by (cases dir) (simp_all add: seekoff_def setg_def gbump_def)

theorem seekoff_reaches_target_witness:
  "eback (ReconstituteStreamHandler_new example_container)
     = start_ptr (ReconstituteStreamHandler_new example_container)
   \<and> ios_end \<noteq> ios_other
   \<and> (\<exists>h'. seekoff (ReconstituteStreamHandler_new example_container) (-100) ios_end
            = Inr (gptr h' - eback h', h')
         \<and> gptr h' - eback h' = 0)"
proof -
  have e: "eback (ReconstituteStreamHandler_new example_container)
     = start_ptr (ReconstituteStreamHandler_new example_container)"
    by (simp add: ReconstituteStreamHandler_new_def)
  have d: "ios_end \<noteq> ios_other"
    by simp
  from seekoff_reaches_target [OF e d, of "-100"] e d show ?thesis
    by (auto simp: ReconstituteStreamHandler_new_def example_container_def FrozenMemoryRegion_new_def)
qed

text \<open>
  Nothing is clamped: on a region of 100 bytes, a seek to 250 from the beginning ends at
  250, a seek of 7 past the end at 107, and a seek of \<open>-3\<close> from position 0 at \<open>-3\<close>.
\<close>

theorem seekoff_clamp_counterexample:
  "seekoff (ReconstituteStreamHandler_new example_container) 250 ios_beg
     = Inr (250, \<lparr>start_ptr = 1000, end_ptr = 1100, eback = 1000, gptr = 1250, egptr = 1100\<rparr>)
   \<and> seekoff (ReconstituteStreamHandler_new example_container) 7 ios_end
     = Inr (107, \<lparr>start_ptr = 1000, end_ptr = 1100, eback = 1000, gptr = 1107, egptr = 1100\<rparr>)
   \<and> seekoff (ReconstituteStreamHandler_new example_container) (-3) ios_cur
     = Inr (-3, \<lparr>start_ptr = 1000, end_ptr = 1100, eback = 1000, gptr = 997, egptr = 1100\<rparr>)
   \<and> f_length example_container = 100"
  by (simp add: seekoff_def setg_def gbump_def to_int32_def ReconstituteStreamHandler_new_def
      example_container_def FrozenMemoryRegion_new_def)

subsection \<open>The empty path\<close>

text \<open>
  C10.  \<open>getStructureRecursive\<close> of the empty path returns the null pointer: neither the
  reconstituter itself nor an error.
\<close>

theorem getStructureRecursive_empty_path:
  "getStructureRecursive this [] = Inr None"
  by (simp add: getStructureRecursive_def)

end
